theory Spec2Isabelle
  imports Complex_Main
begin

section \<open>Conventions\<close>

text \<open>
  Python \<open>str\<close> values are modelled as \<^typ>\<open>string\<close>; a character outside ASCII in a
  literal of the source is written as its UTF-8 bytes. Python \<open>int\<close> is \<^typ>\<open>int\<close>.
  The built-in \<open>hash\<close> of a string is salted per process, so it is a parameter
  \<open>hsh\<close> of every function that calls it. Dictionaries with a fixed set of keys are
  records; a key that only some results carry is an \<open>option\<close> field.
\<close>

subsection \<open>Formatting integers, as \<open>str(i)\<close> and f-strings do\<close>

definition digit_char :: "nat \<Rightarrow> char" where
  "digit_char d = ''0123456789'' ! d"

fun str_nat :: "nat \<Rightarrow> string" where
  "str_nat n = (if n < 10 then [digit_char n] else str_nat (n div 10) @ [digit_char (n mod 10)])"

declare str_nat.simps [simp del]

definition str_int :: "int \<Rightarrow> string" where
  "str_int i = (if i < 0 then CHR ''-'' # str_nat (nat (- i)) else str_nat (nat i))"

subsection \<open>String methods\<close>

text \<open>\<open>s.split(c)\<close> for a one-character separator: the pieces between the separators,
  one more than there are separators.\<close>

fun split_on :: "char \<Rightarrow> string \<Rightarrow> string list" where
  "split_on c [] = [[]]"
| "split_on c (x # xs) =
     (if x = c then [] # split_on c xs
      else (case split_on c xs of [] \<Rightarrow> [[x]] | w # ws \<Rightarrow> (x # w) # ws))"

text \<open>\<open>s.strip()\<close> removes the characters with \<open>isspace()\<close> from both ends. These
  are the code points 09--0D, 1C--1F, 20, 85, A0, 1680, 2000--200A, 2028, 2029, 202F,
  205F and 3000, listed here in UTF-8.\<close>

definition whitespace :: "string list" where
  "whitespace =
     [[CHR 0x09], [CHR 0x0A], [CHR 0x0B], [CHR 0x0C], [CHR 0x0D],
      [CHR 0x1C], [CHR 0x1D], [CHR 0x1E], [CHR 0x1F], [CHR 0x20],
      [CHR 0xC2, CHR 0x85], [CHR 0xC2, CHR 0xA0], [CHR 0xE1, CHR 0x9A, CHR 0x80],
      [CHR 0xE2, CHR 0x80, CHR 0x80], [CHR 0xE2, CHR 0x80, CHR 0x81],
      [CHR 0xE2, CHR 0x80, CHR 0x82], [CHR 0xE2, CHR 0x80, CHR 0x83],
      [CHR 0xE2, CHR 0x80, CHR 0x84], [CHR 0xE2, CHR 0x80, CHR 0x85],
      [CHR 0xE2, CHR 0x80, CHR 0x86], [CHR 0xE2, CHR 0x80, CHR 0x87],
      [CHR 0xE2, CHR 0x80, CHR 0x88], [CHR 0xE2, CHR 0x80, CHR 0x89],
      [CHR 0xE2, CHR 0x80, CHR 0x8A], [CHR 0xE2, CHR 0x80, CHR 0xA8],
      [CHR 0xE2, CHR 0x80, CHR 0xA9], [CHR 0xE2, CHR 0x80, CHR 0xAF],
      [CHR 0xE2, CHR 0x81, CHR 0x9F], [CHR 0xE3, CHR 0x80, CHR 0x80]]"

definition leading_space :: "string \<Rightarrow> nat" where
  "leading_space s =
     (case find (\<lambda>w. take (length w) s = w) whitespace of None \<Rightarrow> 0 | Some w \<Rightarrow> length w)"

definition trailing_space :: "string \<Rightarrow> nat" where
  "trailing_space s =
     (case find (\<lambda>w. length w \<le> length s \<and> drop (length s - length w) s = w) whitespace of
        None \<Rightarrow> 0 | Some w \<Rightarrow> length w)"

function lstrip :: "string \<Rightarrow> string" where
  "lstrip s = (if leading_space s = 0 \<or> length s < leading_space s then s
               else lstrip (drop (leading_space s) s))"
  by pat_completeness auto
termination
  by (relation "measure length") auto

function rstrip :: "string \<Rightarrow> string" where
  "rstrip s = (if trailing_space s = 0 \<or> length s < trailing_space s then s
               else rstrip (take (length s - trailing_space s) s))"
  by pat_completeness auto
termination
  by (relation "measure length") auto

declare lstrip.simps [simp del] rstrip.simps [simp del]

definition strip :: "string \<Rightarrow> string" where
  "strip s = rstrip (lstrip s)"

text \<open>\<open>s.lower()\<close> on the ASCII letters. The handler below only asks whether a fixed
  ASCII code occurs in the lowered text, and no code point outside ASCII lowers to a
  letter that could take part in such an occurrence, so the bytes of the other code
  points are left as they are.\<close>

definition lower_char :: "char \<Rightarrow> char" where
  "lower_char c =
     (case map_of (zip ''ABCDEFGHIJKLMNOPQRSTUVWXYZ'' ''abcdefghijklmnopqrstuvwxyz'') c of
        None \<Rightarrow> c | Some l \<Rightarrow> l)"

definition lower :: "string \<Rightarrow> string" where
  "lower s = map lower_char s"

text \<open>\<open>x in s\<close> for strings: \<open>x\<close> occurs in \<open>s\<close> as a contiguous piece.\<close>

fun contains :: "string \<Rightarrow> string \<Rightarrow> bool" where
  "contains [] x = (x = [])"
| "contains (c # s) x = (take (length x) (c # s) = x \<or> contains s x)"

subsection \<open>List repetition and slicing\<close>

text \<open>\<open>xs * n\<close> is empty for \<open>n \<le> 0\<close>; \<open>xs[:c]\<close> with a negative \<open>c\<close> leaves out the
  last \<open>-c\<close> elements.\<close>

definition list_times :: "'a list \<Rightarrow> int \<Rightarrow> 'a list" where
  "list_times xs n = concat (replicate (nat n) xs)"

definition slice_to :: "'a list \<Rightarrow> int \<Rightarrow> 'a list" where
  "slice_to xs c = (if 0 \<le> c then take (nat c) xs else take (length xs - nat (- c)) xs)"

section \<open>Workflow templates (handlers/core\_clean\_actions.py)\<close>

record task_spec =
  name :: string
  description :: string
  assignee :: string
  estimated_duration :: string
  dependencies :: "string list"
  calendar_reminder :: bool

definition get_event_planning_workflow_template :: "task_spec list" where
  "get_event_planning_workflow_template = [
     \<lparr>name = ''Vendor Coordination & Calls'',
      description = ''Contact and coordinate with event vendors'',
      assignee = ''Kate or Karen'',
      estimated_duration = ''2-3 hours'',
      dependencies = [],
      calendar_reminder = True\<rparr>,
     \<lparr>name = ''Creative Team Collaboration for Visual Experience'',
      description = ''Work with creative team on event visual design and branding'',
      assignee = ''Kate or Karen'',
      estimated_duration = ''3-4 hours'',
      dependencies = [''Vendor Coordination & Calls''],
      calendar_reminder = True\<rparr>,
     \<lparr>name = ''Physical Event Logistics Planning'',
      description = ''Plan event setup, layout, equipment, and operational details'',
      assignee = ''Kate or Karen'',
      estimated_duration = ''4-5 hours'',
      dependencies = [''Creative Team Collaboration for Visual Experience''],
      calendar_reminder = True\<rparr>,
     \<lparr>name = ''Event Setup and Operations'',
      description = ''On-site event setup and day-of operations management'',
      assignee = ''Kate or Karen'',
      estimated_duration = ''6-8 hours'',
      dependencies = [''Physical Event Logistics Planning''],
      calendar_reminder = True\<rparr>,
     \<lparr>name = ''Post-Event Wrap-up and Vendor Coordination'',
      description = ''Event breakdown, vendor settlements, and post-event coordination'',
      assignee = ''Kate or Karen'',
      estimated_duration = ''2-3 hours'',
      dependencies = [''Event Setup and Operations''],
      calendar_reminder = True\<rparr>]"

definition get_email_campaign_workflow_template :: "task_spec list" where
  "get_email_campaign_workflow_template = [
     \<lparr>name = ''Email Template Build'',
      description = ''Create and design email invitation template'',
      assignee = ''Jheryl'',
      estimated_duration = ''2-3 hours'',
      dependencies = [],
      calendar_reminder = False\<rparr>,
     \<lparr>name = ''Email Content Creation & Copy'',
      description = ''Write email content, subject lines, and call-to-action copy'',
      assignee = ''Jheryl'',
      estimated_duration = ''1-2 hours'',
      dependencies = [''Email Template Build''],
      calendar_reminder = False\<rparr>,
     \<lparr>name = ''Email Invitation Scheduling'',
      description = ''Schedule email invitations and set up delivery timing'',
      assignee = ''Jheryl'',
      estimated_duration = ''1 hour'',
      dependencies = [''Email Content Creation & Copy''],
      calendar_reminder = False\<rparr>,
     \<lparr>name = ''Attendee Communication Setup'',
      description = ''Set up automated attendee communication workflows'',
      assignee = ''Jheryl'',
      estimated_duration = ''1-2 hours'',
      dependencies = [''Email Invitation Scheduling''],
      calendar_reminder = False\<rparr>,
     \<lparr>name = ''RSVP Management System'',
      description = ''Configure RSVP tracking and management system'',
      assignee = ''Jheryl'',
      estimated_duration = ''1-2 hours'',
      dependencies = [''Attendee Communication Setup''],
      calendar_reminder = False\<rparr>,
     \<lparr>name = ''Email Campaign QA & Send'',
      description = ''Quality assurance testing and final email campaign send'',
      assignee = ''Jheryl'',
      estimated_duration = ''1 hour'',
      dependencies = [''RSVP Management System''],
      calendar_reminder = False\<rparr>]"

text \<open>A parent ticket of the simulated structure, and the dictionary the two workflow
  builders return: the dual builder sets both parents and the two per-parent counts, the
  email-only builder sets the email parent and \<open>total_tasks\<close>.\<close>

record parent_ticket =
  parent_name :: string
  parent_assignees :: "string list"
  parent_tasks :: "task_spec list"
  parent_total_tasks :: nat

record workflow_result =
  event_planning_parent :: "parent_ticket option"
  email_campaign_parent :: "parent_ticket option"
  event_planning_tasks :: "nat option"
  email_campaign_tasks :: "nat option"
  total_tasks :: "nat option"
  total_parents :: nat

definition create_dual_parent_ticket_workflow ::
  "string \<Rightarrow> string \<Rightarrow> string \<Rightarrow> string \<Rightarrow> workflow_result" where
  "create_dual_parent_ticket_workflow nm goal target user_id =
     (let event_planning = get_event_planning_workflow_template;
          email_campaign = get_email_campaign_workflow_template
      in \<lparr>event_planning_parent = Some
             \<lparr>parent_name = ''Event Planning: '' @ nm,
              parent_assignees = [''Kate'', ''Karen''],
              parent_tasks = event_planning,
              parent_total_tasks = length event_planning\<rparr>,
           email_campaign_parent = Some
             \<lparr>parent_name = ''Email Campaign: '' @ nm,
              parent_assignees = [''Jheryl''],
              parent_tasks = email_campaign,
              parent_total_tasks = length email_campaign\<rparr>,
           event_planning_tasks = Some (length event_planning),
           email_campaign_tasks = Some (length email_campaign),
           total_tasks = None,
           total_parents = 2\<rparr>)"

definition create_email_only_workflow ::
  "string \<Rightarrow> string \<Rightarrow> string \<Rightarrow> string \<Rightarrow> workflow_result" where
  "create_email_only_workflow nm goal target user_id =
     (let email_tasks = get_email_campaign_workflow_template
      in \<lparr>event_planning_parent = None,
           email_campaign_parent = Some
             \<lparr>parent_name = ''Email Campaign: '' @ nm,
              parent_assignees = [''Jheryl''],
              parent_tasks = email_tasks,
              parent_total_tasks = length email_tasks\<rparr>,
           event_planning_tasks = None,
           email_campaign_tasks = None,
           total_tasks = Some (length email_tasks),
           total_parents = 1\<rparr>)"

definition process_campaign_with_workflow_templates ::
  "string \<Rightarrow> string \<Rightarrow> string \<Rightarrow> string \<Rightarrow> string \<Rightarrow> workflow_result" where
  "process_campaign_with_workflow_templates nm goal target campaign_type user_id =
     (if campaign_type = ''physical_event''
      then create_dual_parent_ticket_workflow nm goal target user_id
      else create_email_only_workflow nm goal target user_id)"

text \<open>The parent records a result carries, in the order event planning, email.\<close>

definition workflow_parents :: "workflow_result \<Rightarrow> parent_ticket list" where
  "workflow_parents r =
     (case event_planning_parent r of None \<Rightarrow> [] | Some p \<Rightarrow> [p]) @
     (case email_campaign_parent r of None \<Rightarrow> [] | Some p \<Rightarrow> [p])"

section \<open>Project-tracker adapter (services/monday\_service.py)\<close>

text \<open>A ticket dictionary of \<open>MondayService\<close>: its tasks are plain task names and the
  assignees are those of the ticket.\<close>

record monday_ticket =
  ticket_id :: string
  ticket_name :: string
  ticket_assignees :: "string list"
  ticket_tasks :: "string list"

record monday_result =
  status :: string
  campaign_type :: string
  event_ticket :: "monday_ticket option"
  email_ticket :: "monday_ticket option"
  event_board_url :: "string option"
  email_board_url :: "string option"
  board_url :: "string option"

definition create_physical_event_campaign ::
  "(string \<Rightarrow> int) \<Rightarrow> string \<Rightarrow> string \<Rightarrow> string \<Rightarrow> monday_result" where
  "create_physical_event_campaign hsh nm goal target =
     \<lparr>status = ''created'',
      campaign_type = ''physical_event'',
      event_ticket = Some
        \<lparr>ticket_id = ''event_'' @ str_int (hsh nm mod 10000),
         ticket_name = ''Event Planning: '' @ nm,
         ticket_assignees = [''kate@fetchrewards.com'', ''karen@fetchrewards.com''],
         ticket_tasks =
           [''Venue booking and logistics'', ''Event timeline and agenda'',
            ''Speaker/presenter coordination'', ''Materials and setup planning'',
            ''Registration process'', ''On-site execution'', ''Post-event follow-up'']\<rparr>,
      email_ticket = Some
        \<lparr>ticket_id = ''email_'' @ str_int (hsh nm mod 10000),
         ticket_name = ''Email Campaign: '' @ nm,
         ticket_assignees = [''jheryl@fetchrewards.com''],
         ticket_tasks =
           [''Email strategy'', ''Content creation'', ''Audience segmentation'',
            ''Send automation'', ''Performance tracking'']\<rparr>,
      event_board_url = Some ''https://fetchrewards.monday.com/boards/123456'',
      email_board_url = Some ''https://fetchrewards.monday.com/boards/789012'',
      board_url = None\<rparr>"

definition create_email_only_campaign ::
  "(string \<Rightarrow> int) \<Rightarrow> string \<Rightarrow> string \<Rightarrow> string \<Rightarrow> monday_result" where
  "create_email_only_campaign hsh nm goal target =
     \<lparr>status = ''created'',
      campaign_type = ''email_only'',
      event_ticket = None,
      email_ticket = Some
        \<lparr>ticket_id = ''email_only_'' @ str_int (hsh nm mod 10000),
         ticket_name = ''Email Campaign: '' @ nm,
         ticket_assignees = [''jheryl@fetchrewards.com''],
         ticket_tasks =
           [''Campaign strategy'', ''Audience segmentation'', ''Content creation'',
            ''A/B testing'', ''Send automation'', ''Performance analysis'']\<rparr>,
      event_board_url = None,
      email_board_url = None,
      board_url = Some ''https://fetchrewards.monday.com/boards/789012''\<rparr>"

text \<open>The parent tickets of an adapter result, in the order event, email.\<close>

definition monday_parents :: "monday_result \<Rightarrow> monday_ticket list" where
  "monday_parents r =
     (case event_ticket r of None \<Rightarrow> [] | Some t \<Rightarrow> [t]) @
     (case email_ticket r of None \<Rightarrow> [] | Some t \<Rightarrow> [t])"

section \<open>Form submission (handlers/campaign\_submission.py)\<close>

text \<open>The branch of \<open>handle_campaign_submission\<close> on the campaign-type tag: the adapter
  result and the confirmation text built from it. The check mark and the bullet of the
  source are the UTF-8 sequences \<open>E2 9C 85\<close> and \<open>E2 80 A2\<close>. Reading a board URL that
  the result lacks is a \<open>KeyError\<close> in the source; the result types show that each branch
  reads a key its adapter call sets, so the text is built with the value at hand.\<close>

definition check_mark :: string where
  "check_mark = [CHR 0xE2, CHR 0x9C, CHR 0x85]"

definition bullet :: string where
  "bullet = [CHR 0xE2, CHR 0x80, CHR 0xA2]"

definition newline :: char where
  "newline = CHR 0x0A"

definition handle_campaign_submission ::
  "(string \<Rightarrow> int) \<Rightarrow> string \<Rightarrow> string \<Rightarrow> string \<Rightarrow> string \<Rightarrow> monday_result \<times> string" where
  "handle_campaign_submission hsh campaign_name campaign_goal campaign_target ctype =
     (if ctype = ''physical_event''
      then
        (let result = create_physical_event_campaign hsh campaign_name campaign_goal campaign_target
         in (result,
             check_mark @ '' *Physical Event Campaign Created*'' @ [newline, newline] @
             ''*'' @ campaign_name @ ''*'' @ [newline, newline] @
             bullet @ '' Event Planning Board: '' @ the (event_board_url result) @ [newline] @
             bullet @ '' Email Campaign Board: '' @ the (email_board_url result) @ [newline] @
             bullet @ '' Assigned: Kate, Karen, Jheryl''))
      else
        (let result = create_email_only_campaign hsh campaign_name campaign_goal campaign_target
         in (result,
             check_mark @ '' *Email-Only Campaign Created*'' @ [newline, newline] @
             ''*'' @ campaign_name @ ''*'' @ [newline, newline] @
             bullet @ '' Campaign Board: '' @ the (board_url result) @ [newline] @
             bullet @ '' Assigned: Jheryl'')))"

section \<open>Unified workflow (services/monday\_service.py)\<close>

text \<open>A \<open>datetime\<close> is a count of microseconds and \<open>timedelta(days=n)\<close> is \<open>n\<close> days
  of them; \<open>datetime.now()\<close> is a parameter of each function that reads the clock, and
  so is the rendering \<open>isoformat()\<close>.\<close>

type_synonym datetime = int

definition timedelta_days :: "int \<Rightarrow> int" where
  "timedelta_days n = n * 86400000000"

record parent_task =
  parent_task_id :: string
  parent_task_name :: string
  parent_task_status :: string
  parent_task_assignee :: string
  parent_task_location :: string
  parent_task_created_date :: string
  parent_task_type :: string

definition create_parent_task ::
  "(string \<Rightarrow> int) \<Rightarrow> (datetime \<Rightarrow> string) \<Rightarrow> datetime \<Rightarrow>
   string \<Rightarrow> string \<Rightarrow> string \<Rightarrow> string \<Rightarrow> parent_task" where
  "create_parent_task hsh isoformat now campaign_name event_dates location requestor =
     \<lparr>parent_task_id = ''task_'' @ str_int (hsh campaign_name mod 100000),
      parent_task_name = campaign_name @ '' - '' @ event_dates,
      parent_task_status = ''New Request'',
      parent_task_assignee = requestor,
      parent_task_location = location,
      parent_task_created_date = isoformat now,
      parent_task_type = ''parent_task''\<rparr>"

text \<open>An entry of the list \<open>standard_subtasks\<close>, whose due date is still a \<open>datetime\<close>,
  and a finished subtask, whose due date is its ISO rendering.\<close>

record subtask_data =
  data_name :: string
  data_assignee :: string
  data_due_date :: datetime
  data_estimated_duration :: string
  data_dependencies :: "string list"

record subtask =
  task_id :: string
  parent_id :: string
  subtask_name :: string
  subtask_assignee :: string
  due_date :: string
  subtask_estimated_duration :: string
  subtask_dependencies :: "string list"
  subtask_status :: string
  subtask_type :: string
  subtask_calendar_reminder :: bool

text \<open>The reference date: both branches on \<open>event_dates\<close> (and the handler of the
  surrounding \<open>try\<close>) compute the same value.\<close>

definition event_date_of :: "datetime \<Rightarrow> string \<Rightarrow> datetime" where
  "event_date_of now event_dates =
     (if event_dates \<noteq> [] then now + timedelta_days 30 else now + timedelta_days 30)"

definition standard_subtasks :: "datetime \<Rightarrow> subtask_data list" where
  "standard_subtasks event_date = [
     \<lparr>data_name = ''Deliverable Design'',
      data_assignee = ''Kelly Redding'',
      data_due_date = event_date - timedelta_days 14,
      data_estimated_duration = ''2-3 business days'',
      data_dependencies = []\<rparr>,
     \<lparr>data_name = ''Creative Review'',
      data_assignee = ''Kelly Redding'',
      data_due_date = event_date - timedelta_days 12,
      data_estimated_duration = ''1-2 business days'',
      data_dependencies = [''Deliverable Design'']\<rparr>,
     \<lparr>data_name = ''EDEN Review'',
      data_assignee = ''Karen or Kate'',
      data_due_date = event_date - timedelta_days 10,
      data_estimated_duration = ''1-2 business days'',
      data_dependencies = [''Creative Review'']\<rparr>]"

definition deliverable_items :: "string \<Rightarrow> string list" where
  "deliverable_items deliverables =
     (if deliverables \<noteq> [] \<and> strip deliverables \<noteq> []
      then map strip (filter (\<lambda>item. strip item \<noteq> []) (split_on newline deliverables))
      else [])"

definition custom_subtask :: "datetime \<Rightarrow> string \<Rightarrow> subtask_data" where
  "custom_subtask event_date item =
     \<lparr>data_name = ''Custom: '' @ item,
      data_assignee = ''To Be Assigned'',
      data_due_date = event_date - timedelta_days 7,
      data_estimated_duration = ''TBD'',
      data_dependencies = [''EDEN Review'']\<rparr>"

definition make_subtask ::
  "(string \<Rightarrow> int) \<Rightarrow> (datetime \<Rightarrow> string) \<Rightarrow> string \<Rightarrow> nat \<times> subtask_data \<Rightarrow> subtask" where
  "make_subtask hsh isoformat ptid p =
     (case p of (i, d) \<Rightarrow>
       \<lparr>task_id = ''subtask_'' @ str_int (hsh (ptid @ str_nat i) mod 100000),
        parent_id = ptid,
        subtask_name = data_name d,
        subtask_assignee = data_assignee d,
        due_date = isoformat (data_due_date d),
        subtask_estimated_duration = data_estimated_duration d,
        subtask_dependencies = data_dependencies d,
        subtask_status = ''Not Started'',
        subtask_type = ''subtask'',
        subtask_calendar_reminder = True\<rparr>)"

definition create_campaign_subtasks ::
  "(string \<Rightarrow> int) \<Rightarrow> (datetime \<Rightarrow> string) \<Rightarrow> datetime \<Rightarrow>
   string \<Rightarrow> string \<Rightarrow> string \<Rightarrow> subtask list" where
  "create_campaign_subtasks hsh isoformat now ptid deliverables event_dates =
     (let event_date = event_date_of now event_dates;
          all_subtasks = standard_subtasks event_date @
                         map (custom_subtask event_date) (deliverable_items deliverables)
      in map (make_subtask hsh isoformat ptid) (enumerate 0 all_subtasks))"

text \<open>\<open>create_unified_campaign_workflow\<close> reads five keys of \<open>campaign_data\<close> with
  defaults and reads the clock three times: for the parent, for the subtasks and for
  \<open>created_at\<close>. With string values nothing in its body raises, so the \<open>None\<close> of its
  handler is never returned.\<close>

record unified_workflow =
  board_id :: string
  workflow_board_url :: string
  workflow_parent_task :: parent_task
  subtasks :: "subtask list"
  workflow_total_tasks :: nat
  created_at :: string

definition get_default :: "('k \<rightharpoonup> 'v) \<Rightarrow> 'k \<Rightarrow> 'v \<Rightarrow> 'v" where
  "get_default d k v = (case d k of None \<Rightarrow> v | Some x \<Rightarrow> x)"

definition create_unified_campaign_workflow ::
  "(string \<Rightarrow> int) \<Rightarrow> (datetime \<Rightarrow> string) \<Rightarrow> datetime \<Rightarrow> datetime \<Rightarrow> datetime \<Rightarrow>
   (string \<rightharpoonup> string) \<Rightarrow> unified_workflow option" where
  "create_unified_campaign_workflow hsh isoformat now1 now2 now3 campaign_data =
     (let campaign_name = get_default campaign_data ''event_name'' ''Untitled Campaign'';
          event_dates = get_default campaign_data ''event_dates'' [];
          location = get_default campaign_data ''location'' [];
          deliverables = get_default campaign_data ''deliverables'' [];
          requestor = get_default campaign_data ''requestor'' ''Unknown'';
          parent = create_parent_task hsh isoformat now1 campaign_name event_dates location requestor;
          subs = create_campaign_subtasks hsh isoformat now2 (parent_task_id parent)
                   deliverables event_dates;
          bid = ''board_'' @ str_int (hsh campaign_name mod 100000)
      in Some \<lparr>board_id = bid,
               workflow_board_url = ''https://monday.com/boards/'' @ bid,
               workflow_parent_task = parent,
               subtasks = subs,
               workflow_total_tasks = length subs + 1,
               created_at = isoformat now3\<rparr>)"

section \<open>Generative-text adapter (services/ai\_service.py)\<close>

text \<open>The adapter holds a client only when an API key is configured. A configured client
  is modelled by what the chat-completion request yields for a prompt: the text of the
  first choice, or \<open>None\<close> when anything in the \<open>try\<close> block raises.\<close>

type_synonym ai_client = "string \<Rightarrow> string option"

definition ai_prompts :: "int \<Rightarrow> (string \<times> string) list" where
  "ai_prompts count = [
     (''email'', ''Generate '' @ str_int count @
        '' Fetch Rewards email campaigns focused on receipt scanning, points redemption, and brand partnerships. Include creative hooks. One per line.''),
     (''social'', ''Generate '' @ str_int count @
        '' viral Fetch Rewards social campaigns about receipt heroes, scan streaks, and surprise rewards. Focus on UGC and gamification. One per line.''),
     (''content'', ''Generate '' @ str_int count @
        '' Fetch content campaigns showcasing user journeys, partner spotlights, and points economy education. One per line.''),
     (''event'', ''Generate '' @ str_int count @
        '' Fetch experiential events like pop-ups, campus tours, and brand summits. Focus on receipt scanning and rewards in real life. One per line.''),
     (''campaign'', ''Generate '' @ str_int count @
        '' integrated Fetch marketing campaigns featuring receipt scanning, reward discovery, and brand partnerships. Include gamification elements. One per line.''),
     (''slides'', ''Generate '' @ str_int count @
        '' Fetch presentation topics for partners, internal teams, and stakeholders. Focus on user data, journey maps, and brand case studies. One per line.'')]"

definition get_prompt_for_type :: "string \<Rightarrow> int \<Rightarrow> string" where
  "get_prompt_for_type ctype count =
     (case map_of (ai_prompts count) ctype of
        Some p \<Rightarrow> p
      | None \<Rightarrow> the (map_of (ai_prompts count) ''campaign''))"

definition ai_fallbacks :: "(string \<times> string list) list" where
  "ai_fallbacks = [
     (''email'',
        [''Weekly Bonus Points Roundup'',
         ''Exclusive Partner Store Spotlight'',
         ''Receipt Scanning Tips & Tricks'',
         ''Member Milestone Celebration'',
         ''Limited-Time Double Points Offer'']),
     (''social'',
        [''#ScanToWin Challenge'',
         ''Receipt Art Contest'',
         ''Fetch Friends Referral Drive'',
         ''Store Partnership Announcements'',
         ''User Success Story Features'']),
     (''content'',
        [''Smart Shopping Guide Blog Series'',
         ''Receipt Scanning Best Practices'',
         ''Partner Store Deep Dives'',
         ''Cashback Optimization Tips'',
         ''Mobile App Feature Tutorials'']),
     (''event'',
        [''Fetch Rewards User Meetup'',
         ''Partner Store Pop-up Events'',
         ''Mobile Scanning Workshops'',
         ''Cashback Celebration Days'',
         ''Referral Program Launch Events''])]"

text \<open>The list a tag selects: its own entry, or the entry of the default tag.\<close>

definition ai_fallback_list :: "string \<Rightarrow> string list" where
  "ai_fallback_list ctype =
     (case map_of ai_fallbacks ctype of
        Some l \<Rightarrow> l
      | None \<Rightarrow> the (map_of ai_fallbacks ''email''))"

definition ai_get_fallback_suggestions :: "string \<Rightarrow> int \<Rightarrow> string list" where
  "ai_get_fallback_suggestions ctype count =
     (let suggestions = ai_fallback_list ctype
      in slice_to (list_times suggestions (count div int (length suggestions) + 1)) count)"

definition generate_campaign_suggestions ::
  "ai_client option \<Rightarrow> string \<Rightarrow> int \<Rightarrow> string list" where
  "generate_campaign_suggestions client ctype count =
     (case client of
        None \<Rightarrow> ai_get_fallback_suggestions ctype count
      | Some request \<Rightarrow>
          (case request (get_prompt_for_type ctype count) of
             None \<Rightarrow> ai_get_fallback_suggestions ctype count
           | Some content \<Rightarrow>
               slice_to (map strip (filter (\<lambda>s. strip s \<noteq> []) (split_on newline content)))
                 count))"

section \<open>Suggestion cache (handlers/core\_clean\_actions.py)\<close>

definition handler_fallbacks :: "(string \<times> string list) list" where
  "handler_fallbacks = [
     (''event'',
        [''Fetch Field Day - Team-building with brand booths and challenges'',
         ''Rewards After Dark - Nighttime speakeasy with premium experiences'',
         ''Receipt Race - Street team event with brand-specific goals'']),
     (''physical_event'',
        [''Fetch Field Day - Physical team-building with brand booths and challenges'',
         ''Rewards After Dark - Nighttime physical speakeasy with premium experiences'',
         ''Receipt Race - Physical street team event with brand-specific goals'']),
     (''email_only'',
        [''Email Reward Challenge - Email-driven loyalty program'',
         ''Digital Milestone Celebration - Email campaign for user achievements'',
         ''Email Partner Spotlight - Partner anniversary email series'']),
     (''slides'',
        [''Marketing Channel Overview - Visual breakdown of Fetch's amplification'',
         ''Pilot to Partnership: The First 90 Days - New partner onboarding'',
         ''Field & Experiential Deck - Past event activations with metrics'']),
     (''campaign'',
        [''Brand Love Challenge - Gamified loyalty meets personalization'',
         ''My First 100,000 Points - User milestone journey sharing'',
         ''Brand Birthday Bash - Partner anniversaries with multipliers''])]"

definition handler_fallback_list :: "string \<Rightarrow> string list" where
  "handler_fallback_list suggestion_type =
     (case map_of handler_fallbacks suggestion_type of
        Some l \<Rightarrow> l
      | None \<Rightarrow> the (map_of handler_fallbacks ''campaign''))"

definition get_fallback_suggestions :: "string \<Rightarrow> int \<Rightarrow> string list" where
  "get_fallback_suggestions suggestion_type count =
     (let base = handler_fallback_list suggestion_type
      in slice_to (list_times base (count div int (length base) + 1)) count)"

text \<open>\<open>SUGGESTION_CACHE\<close> is one dictionary for the suggestion lists and for the key
  \<open>last_refresh\<close>, so a value is \<open>None\<close>, a reading of \<open>time.time()\<close> or a list. Readings
  of the clock are real numbers of seconds. \<open>asyncio.create_task\<close> only schedules a
  coroutine: the scheduled coroutines are kept, in order, in \<open>pending_tasks\<close>, and each
  runs later as a step of its own (\<open>run_task\<close>).\<close>

datatype cache_value = CNone | CTime real | CList "string list"

datatype task = Refresh_ai_cache string int | Populate_cache_background string int

record bot_state =
  suggestion_cache :: "string \<rightharpoonup> cache_value"
  pending_tasks :: "task list"

definition initial_cache :: "string \<rightharpoonup> cache_value" where
  "initial_cache = map_of [
     (''campaign'', CList
        [''Receipt Heroes Series - Feature real users with epic reward redemption stories'',
         ''Reward Refresh Week - Daily new reward drops and exclusive brand promos'',
         ''Scan Streaks - Weekly prizes for consecutive scans with leaderboard'',
         ''Surprise & Delight Drops - Random rewards for scanning within certain windows'',
         ''Holiday Hacks with Fetch - Position Fetch as money-saving hero for seasonal shopping'']),
     (''physical_event'', CList
        [''Fetch Live: Rewards in Real Life - Immersive pop-up with physical receipt scanning'',
         ''Receipt Relay (Campus Tour) - College roadshow with scanning contests and swag'',
         ''Brand Partner Summit - Half-day immersion on Fetch's power and data'',
         ''Receipt Art Gallery - Transform user receipts into curated art experience'',
         ''Fetch Your Fortune (Festival Activation) - Branded booth with reward fortune tellers'']),
     (''email_only'', CList
        [''Receipt Heroes Email Series - Spotlight top users via email campaigns'',
         ''Weekly Rewards Digest - Email newsletter with new reward announcements'',
         ''Scan Challenge Email Campaign - Email-driven weekly scanning competitions'',
         ''Surprise Rewards Email Drop - Email notifications for limited-time bonuses'',
         ''Holiday Savings Email Series - Email campaign for seasonal shopping tips'']),
     (''slides'', CList
        [''Fetch 101: Brand Overview for New Partners - Mission, reach, user behavior showcase'',
         ''2025 Consumer Trends Report (Powered by Fetch Data) - Proprietary spending insights'',
         ''Fetch User Journey Map - Scan to reward path visualization'',
         ''Points Economy Explained - How Fetch points work and drive action'',
         ''Year-in-Review: Fetch Highlights + Metrics - User growth and standout moments'']),
     (''event'', CList
        [''Fetch Live: Rewards in Real Life - Immersive pop-up with physical receipt scanning'',
         ''Receipt Relay (Campus Tour) - College roadshow with scanning contests and swag'',
         ''Brand Partner Summit - Half-day immersion on Fetch's power and data'',
         ''Receipt Art Gallery - Transform user receipts into curated art experience'',
         ''Fetch Your Fortune (Festival Activation) - Branded booth with reward fortune tellers'']),
     (''last_refresh'', CNone)]"

definition initial_state :: bot_state where
  "initial_state = \<lparr>suggestion_cache = initial_cache, pending_tasks = []\<rparr>"

text \<open>Truth value of a cache entry, as \<open>and\<close> and \<open>or\<close> test it.\<close>

fun truthy :: "cache_value \<Rightarrow> bool" where
  "truthy CNone = False"
| "truthy (CTime t) = (t \<noteq> 0)"
| "truthy (CList xs) = (xs \<noteq> [])"

text \<open>\<open>SUGGESTION_CACHE.get("last_refresh", 0) or 0\<close>.\<close>

definition cache_age_of :: "(string \<rightharpoonup> cache_value) \<Rightarrow> cache_value" where
  "cache_age_of c =
     (case c ''last_refresh'' of
        None \<Rightarrow> CTime 0
      | Some v \<Rightarrow> if truthy v then v else CTime 0)"

definition spawn :: "task \<Rightarrow> bot_state \<Rightarrow> bot_state" where
  "spawn t st = st\<lparr>pending_tasks := pending_tasks st @ [t]\<rparr>"

text \<open>\<open>generate_ai_suggestions\<close> at clock reading \<open>current_time\<close>. Slicing a number and
  subtracting a list from a number raise \<open>TypeError\<close>; the handler of the function
  answers both with the fallback list, and nothing has been scheduled by then. The log
  lines are left out.\<close>

definition generate_ai_suggestions ::
  "string \<Rightarrow> int \<Rightarrow> real \<Rightarrow> bot_state \<Rightarrow> string list \<times> bot_state" where
  "generate_ai_suggestions suggestion_type count current_time st =
     (case suggestion_cache st suggestion_type of
        Some (CList (x # xs)) \<Rightarrow>
          (let cached_suggestions = slice_to (x # xs) count
           in case cache_age_of (suggestion_cache st) of
                CTime cache_age \<Rightarrow>
                  if current_time - cache_age > 300
                  then (cached_suggestions,
                        (spawn (Refresh_ai_cache suggestion_type count) st)
                          \<lparr>suggestion_cache :=
                             (suggestion_cache st)(''last_refresh'' \<mapsto> CTime current_time)\<rparr>)
                  else (cached_suggestions, st)
              | _ \<Rightarrow> (get_fallback_suggestions suggestion_type count, st))
      | Some (CTime t) \<Rightarrow>
          if t \<noteq> 0 then (get_fallback_suggestions suggestion_type count, st)
          else (get_fallback_suggestions suggestion_type count,
                spawn (Populate_cache_background suggestion_type count) st)
      | _ \<Rightarrow> (get_fallback_suggestions suggestion_type count,
               spawn (Populate_cache_background suggestion_type count) st))"

text \<open>The two background coroutines. \<open>generate_campaign_suggestions\<close> handles its own
  failures, so neither of them takes its \<open>except\<close> branch.\<close>

definition refresh_ai_cache :: "ai_client option \<Rightarrow> string \<Rightarrow> int \<Rightarrow> bot_state \<Rightarrow> bot_state" where
  "refresh_ai_cache client suggestion_type count st =
     (let fresh_suggestions = generate_campaign_suggestions client suggestion_type count
      in if fresh_suggestions \<noteq> []
         then st\<lparr>suggestion_cache := (suggestion_cache st)(suggestion_type \<mapsto> CList fresh_suggestions)\<rparr>
         else st)"

definition populate_cache_background ::
  "ai_client option \<Rightarrow> string \<Rightarrow> int \<Rightarrow> real \<Rightarrow> bot_state \<Rightarrow> bot_state" where
  "populate_cache_background client suggestion_type count current_time st =
     (let suggestions = generate_campaign_suggestions client suggestion_type count
      in if suggestions \<noteq> []
         then st\<lparr>suggestion_cache :=
                   ((suggestion_cache st)(suggestion_type \<mapsto> CList suggestions))
                     (''last_refresh'' \<mapsto> CTime current_time)\<rparr>
         else st)"

text \<open>The event loop runs the oldest pending coroutine.\<close>

definition run_task :: "ai_client option \<Rightarrow> real \<Rightarrow> bot_state \<Rightarrow> bot_state" where
  "run_task client current_time st =
     (case pending_tasks st of
        [] \<Rightarrow> st
      | Refresh_ai_cache ty n # rest \<Rightarrow>
          refresh_ai_cache client ty n (st\<lparr>pending_tasks := rest\<rparr>)
      | Populate_cache_background ty n # rest \<Rightarrow>
          populate_cache_background client ty n current_time (st\<lparr>pending_tasks := rest\<rparr>))"

text \<open>What a call has scheduled, and the timestamp a state has on record: the value
  that \<open>last_refresh\<close> yields when it is a number or is missing.\<close>

definition spawned :: "bot_state \<Rightarrow> bot_state \<Rightarrow> task list" where
  "spawned st st' = drop (length (pending_tasks st)) (pending_tasks st')"

definition is_refresh :: "task \<Rightarrow> bool" where
  "is_refresh t = (case t of Refresh_ai_cache ty n \<Rightarrow> True | _ \<Rightarrow> False)"

definition recorded_age :: "bot_state \<Rightarrow> real option" where
  "recorded_age st = (case cache_age_of (suggestion_cache st) of CTime a \<Rightarrow> Some a | _ \<Rightarrow> None)"

text \<open>A run of the bot, as far as the cache sees it: calls of
  \<open>generate_ai_suggestions\<close> and turns of the event loop, each at a clock reading.
  \<open>refresh_times\<close> collects the readings of the calls that scheduled a refresh.\<close>

datatype event = Call string int real | Run "ai_client option" real

fun event_time :: "event \<Rightarrow> real" where
  "event_time (Call ty n t) = t"
| "event_time (Run client t) = t"

fun step :: "event \<Rightarrow> bot_state \<Rightarrow> bot_state" where
  "step (Call ty n t) st = snd (generate_ai_suggestions ty n t st)"
| "step (Run client t) st = run_task client t st"

fun refresh_times :: "event list \<Rightarrow> bot_state \<Rightarrow> real list" where
  "refresh_times [] st = []"
| "refresh_times (Call ty n t # es) st =
     (if list_ex is_refresh (spawned st (step (Call ty n t) st)) then [t] else []) @
     refresh_times es (step (Call ty n t) st)"
| "refresh_times (Run client t # es) st = refresh_times es (step (Run client t) st)"

definition age_at_least :: "real \<Rightarrow> bot_state \<Rightarrow> bool" where
  "age_at_least lo st = (case recorded_age st of None \<Rightarrow> True | Some a \<Rightarrow> lo \<le> a)"

section \<open>Modal navigation (modals/core\_modal\_system.py)\<close>

text \<open>The event body as far as navigation reads it: the key \<open>view\<close> may be absent
  (\<open>None\<close>), present without an \<open>id\<close> (\<open>Some None\<close>) or present with one; the key
  \<open>trigger_id\<close> may be absent or hold a string, and an empty one counts as missing.\<close>

record nav_body =
  body_view :: "string option option"
  body_trigger_id :: "string option"

datatype exn = ValueError string | OtherError string

text \<open>The three calls of the chat client, each with the identifier it is given and the
  modal. A client is a step function on its own state: a call returns a response or
  raises, and \<open>ValueError\<close> is kept apart from the other exceptions because the
  navigation handles it apart.\<close>

datatype 'm call = Views_open string 'm | Views_update string 'm | Views_push string 'm

type_synonym ('m, 'r, 'c) client = "'m call \<Rightarrow> 'c \<Rightarrow> (exn + 'r) \<times> 'c"

definition view_id :: "nav_body \<Rightarrow> string option" where
  "view_id body = (case body_view body of Some (Some v) \<Rightarrow> Some v | _ \<Rightarrow> None)"

definition trigger :: "nav_body \<Rightarrow> string option" where
  "trigger body =
     (case body_trigger_id body of Some t \<Rightarrow> (if t \<noteq> [] then Some t else None) | None \<Rightarrow> None)"

definition resolve_auto :: "nav_body \<Rightarrow> string \<Rightarrow> string" where
  "resolve_auto body navigation_type =
     (if navigation_type = ''auto''
      then (if view_id body \<noteq> None then ''update''
            else if trigger body \<noteq> None then ''open''
            else if body_view body \<noteq> None then ''update'' else ''open'')
      else navigation_type)"

text \<open>The body of the outer \<open>try\<close>, after \<open>auto\<close> has been resolved.\<close>

definition navigate ::
  "('m, 'r, 'c) client \<Rightarrow> nav_body \<Rightarrow> 'm \<Rightarrow> string \<Rightarrow> 'c \<Rightarrow> (exn + 'r) \<times> 'c" where
  "navigate cl body modal navigation_type s =
     (if navigation_type = ''update'' then
        (case view_id body of
           None \<Rightarrow>
             (case trigger body of
                Some t \<Rightarrow> cl (Views_open t modal) s
              | None \<Rightarrow> (Inl (ValueError ''No trigger_id available for fallback''), s))
         | Some v \<Rightarrow>
             (case cl (Views_update v modal) s of
                (Inr r, s1) \<Rightarrow> (Inr r, s1)
              | (Inl e, s1) \<Rightarrow>
                  (case trigger body of
                     Some t \<Rightarrow> cl (Views_open t modal) s1
                   | None \<Rightarrow> (Inl e, s1))))
      else if navigation_type = ''push'' then
        (case trigger body of
           None \<Rightarrow>
             (case view_id body of
                Some v \<Rightarrow> cl (Views_update v modal) s
              | None \<Rightarrow> (Inl (ValueError ''No view ID available for fallback''), s))
         | Some t \<Rightarrow>
             (case cl (Views_push t modal) s of
                (Inr r, s1) \<Rightarrow> (Inr r, s1)
              | (Inl e, s1) \<Rightarrow>
                  (case view_id body of
                     Some v \<Rightarrow> cl (Views_update v modal) s1
                   | None \<Rightarrow> (Inl e, s1))))
      else if navigation_type = ''open'' then
        (case trigger body of
           None \<Rightarrow>
             (case view_id body of
                Some v \<Rightarrow> cl (Views_update v modal) s
              | None \<Rightarrow> (Inl (ValueError ''No trigger_id or view ID available''), s))
         | Some t \<Rightarrow> cl (Views_open t modal) s)
      else (Inl (ValueError (''Invalid navigation_type: '' @ navigation_type)), s))"

text \<open>The last resort of the outer handler, for an exception with text \<open>msg\<close> that is
  not a \<open>ValueError\<close>: one more update if there is a view, then one more open if there
  is a trigger, then the final exception.\<close>

definition last_resort ::
  "('m, 'r, 'c) client \<Rightarrow> nav_body \<Rightarrow> 'm \<Rightarrow> string \<Rightarrow> 'c \<Rightarrow> (exn + 'r) \<times> 'c" where
  "last_resort cl body modal msg s =
     (let failed = Inl (OtherError (''All modal navigation methods failed: '' @ msg));
          try_open = (\<lambda>s'. case trigger body of
                              None \<Rightarrow> (failed, s')
                            | Some t \<Rightarrow>
                                (case cl (Views_open t modal) s' of
                                   (Inr r, s2) \<Rightarrow> (Inr r, s2)
                                 | (Inl _, s2) \<Rightarrow> (failed, s2)))
      in case view_id body of
           None \<Rightarrow> try_open s
         | Some v \<Rightarrow>
             (case cl (Views_update v modal) s of
                (Inr r, s1) \<Rightarrow> (Inr r, s1)
              | (Inl _, s1) \<Rightarrow> try_open s1))"

definition handle_modal_navigation ::
  "('m, 'r, 'c) client \<Rightarrow> nav_body \<Rightarrow> 'm \<Rightarrow> string \<Rightarrow> 'c \<Rightarrow> (exn + 'r) \<times> 'c" where
  "handle_modal_navigation cl body modal navigation_type s =
     (case navigate cl body modal (resolve_auto body navigation_type) s of
        (Inr r, s1) \<Rightarrow> (Inr r, s1)
      | (Inl (ValueError m), s1) \<Rightarrow> (Inl (ValueError m), s1)
      | (Inl (OtherError m), s1) \<Rightarrow> last_resort cl body modal m s1)"

text \<open>Two clients for the examples: their state is the list of calls made so far. The
  first answers every call; the second raises on every \<open>views_update\<close>.\<close>

definition recording_client :: "(string, string, string call list) client" where
  "recording_client c s = (Inr ''ok'', s @ [c])"

definition failing_client :: "(string, string, string call list) client" where
  "failing_client c s =
     (case c of
        Views_update v m \<Rightarrow> (Inl (OtherError ''not_found''), s @ [c])
      | _ \<Rightarrow> (Inr ''ok'', s @ [c]))"

section \<open>Top-level error handler (handlers/core\_clean\_actions.py)\<close>

text \<open>The handler writes one line to a logger (the one passed in, else the module's)
  and may post one message. Both effects are recorded in order; \<open>chat_postMessage\<close> is
  a parameter that says whether the call for a channel and a text returns or raises.
  Of the body only \<open>user\<close> is read: absent, present without \<open>id\<close>, or present with one.\<close>

datatype logger_ref = Module_logger | Supplied_logger

record handler_world =
  error_log :: "(logger_ref \<times> string) list"
  chat_calls :: "(string \<times> string) list"

definition benign_codes :: "string list" where
  "benign_codes = [''expired_trigger_id'', ''invalid_auth'', ''push_limit_reached'']"

definition apology_text :: string where
  "apology_text = [CHR 0xF0, CHR 0x9F, CHR 0xA4, CHR 0x96] @
     '' Oops! Something went wrong. Please try again or contact support if the issue persists.''"

definition user_id_of :: "string option option \<Rightarrow> string" where
  "user_id_of body_user = (case body_user of Some (Some u) \<Rightarrow> u | _ \<Rightarrow> ''unknown'')"

definition is_benign :: "string \<Rightarrow> bool" where
  "is_benign error_msg = list_ex (contains (lower error_msg)) benign_codes"

definition global_error_handler ::
  "(string \<Rightarrow> string \<Rightarrow> exn + unit) \<Rightarrow> string \<Rightarrow> string option option \<Rightarrow> bool \<Rightarrow>
   handler_world \<Rightarrow> (exn + unit) \<times> handler_world" where
  "global_error_handler chat_postMessage error_msg body_user logger_arg w =
     (let user_id = user_id_of body_user;
          error_logger = (if logger_arg then Supplied_logger else Module_logger);
          w1 = w\<lparr>error_log := error_log w @
                  [(error_logger, ''Unhandled error for user '' @ user_id @ '': '' @ error_msg)]\<rparr>
      in if is_benign error_msg then (Inr (), w1)
         else
           (let w2 = w1\<lparr>chat_calls := chat_calls w1 @ [(user_id, apology_text)]\<rparr>
            in case chat_postMessage user_id apology_text of
                 Inr _ \<Rightarrow> (Inr (), w2)
               | Inl _ \<Rightarrow> (Inr (), w2)))"

section \<open>Example inputs\<close>

text \<open>A hash and a date rendering to run the functions on, and the submission of the
  specification's example: the deliverables \<open>Banner ad\<close> and \<open>Landing page\<close> on two
  lines.\<close>

definition sample_hash :: "string \<Rightarrow> int" where
  "sample_hash s = int (length s)"

definition sample_isoformat :: "datetime \<Rightarrow> string" where
  "sample_isoformat d = str_int d"

definition sample_deliverables :: string where
  "sample_deliverables = ''Banner ad'' @ [newline] @ ''Landing page''"

definition sample_campaign_data :: "string \<rightharpoonup> string" where
  "sample_campaign_data = map_of [
     (''event_name'', ''Block Party''),
     (''event_dates'', ''2025-10-01''),
     (''location'', ''Chicago''),
     (''deliverables'', sample_deliverables),
     (''requestor'', ''U1'')]"

text \<open>An event body with a view and no trigger, two chat clients (one delivers, one
  raises), a world with nothing logged or posted, and a short run of the cache: the
  state after a first call at reading 1000 and three later events.\<close>

definition push_body :: nav_body where
  "push_body = \<lparr>body_view = Some (Some ''V1''), body_trigger_id = None\<rparr>"

definition chat_delivers :: "string \<Rightarrow> string \<Rightarrow> exn + unit" where
  "chat_delivers channel text = Inr ()"

definition chat_fails :: "string \<Rightarrow> string \<Rightarrow> exn + unit" where
  "chat_fails channel text = Inl (OtherError ''channel_not_found'')"

definition empty_world :: handler_world where
  "empty_world = \<lparr>error_log = [], chat_calls = []\<rparr>"

definition sample_events :: "event list" where
  "sample_events = [Call ''slides'' 2 1100, Run None 1200, Call ''event'' 5 1400]"

definition after_sample_call :: bot_state where
  "after_sample_call = initial_state\<lparr>pending_tasks := [Refresh_ai_cache ''slides'' 2],
         suggestion_cache := initial_cache(''last_refresh'' \<mapsto> CTime 1000)\<rparr>"

section \<open>Campaign dispatch and the templates\<close>

lemmas workflow_defs =
  process_campaign_with_workflow_templates_def create_dual_parent_ticket_workflow_def
  create_email_only_workflow_def workflow_parents_def

lemmas monday_defs =
  handle_campaign_submission_def create_physical_event_campaign_def
  create_email_only_campaign_def monday_parents_def

text \<open>
  \<^bold>\<open>C1.\<close> A submission tagged \<open>physical_event\<close> yields exactly two parent records, the
  event-planning parent and the email-campaign parent; every other tag, recognised or
  not, yields exactly one, the email-campaign parent. This holds for the template
  dispatcher \<open>process_campaign_with_workflow_templates\<close> and for the branch of
  \<open>handle_campaign_submission\<close> that calls the project-tracker adapter.
\<close>

theorem dispatch_parent_records:
  "map parent_name (workflow_parents
       (process_campaign_with_workflow_templates nm goal target ctype uid)) =
     (if ctype = ''physical_event''
      then [''Event Planning: '' @ nm, ''Email Campaign: '' @ nm]
      else [''Email Campaign: '' @ nm])
   \<and> length (workflow_parents
       (process_campaign_with_workflow_templates nm goal target ctype uid)) =
     (if ctype = ''physical_event'' then 2 else 1)
   \<and> total_parents (process_campaign_with_workflow_templates nm goal target ctype uid) =
     (if ctype = ''physical_event'' then 2 else 1)
   \<and> map ticket_name (monday_parents
       (fst (handle_campaign_submission hsh nm goal target ctype))) =
     (if ctype = ''physical_event''
      then [''Event Planning: '' @ nm, ''Email Campaign: '' @ nm]
      else [''Email Campaign: '' @ nm])
   \<and> length (monday_parents (fst (handle_campaign_submission hsh nm goal target ctype))) =
     (if ctype = ''physical_event'' then 2 else 1)"
  by (simp add: workflow_defs monday_defs Let_def)

theorem dispatch_parent_records_witness:
  "length (workflow_parents (process_campaign_with_workflow_templates
      ''Block Party'' ''awareness'' ''locals'' ''physical_event'' ''U1'')) = 2
   \<and> length (workflow_parents (process_campaign_with_workflow_templates
      ''Fall Sale'' ''boost signups'' ''new users'' ''webinar'' ''U1'')) = 1
   \<and> length (monday_parents (fst (handle_campaign_submission sample_hash
      ''Block Party'' ''awareness'' ''locals'' ''physical_event''))) = 2
   \<and> length (monday_parents (fst (handle_campaign_submission sample_hash
      ''Fall Sale'' ''boost signups'' ''new users'' ''webinar''))) = 1"
  using dispatch_parent_records [of "''Block Party''" "''awareness''" "''locals''"
          "''physical_event''" "''U1''" sample_hash]
        dispatch_parent_records [of "''Fall Sale''" "''boost signups''" "''new users''"
          "''webinar''" "''U1''" sample_hash]
  by simp

text \<open>
  \<^bold>\<open>C2\<close>, as stated, fails on the project-tracker adapter: the event ticket of
  \<open>create_physical_event_campaign\<close> lists seven tasks, not five, and the five tasks of
  its email ticket are not the six of the ticket of \<open>create_email_only_campaign\<close>.
\<close>

theorem monday_tickets_differ:
  "\<not> (map_option (length \<circ> ticket_tasks)
         (event_ticket (create_physical_event_campaign sample_hash
            ''Block Party'' ''awareness'' ''locals'')) = Some 5
       \<and> map_option ticket_tasks
         (email_ticket (create_physical_event_campaign sample_hash
            ''Block Party'' ''awareness'' ''locals'')) =
         map_option ticket_tasks
         (email_ticket (create_email_only_campaign sample_hash
            ''Block Party'' ''awareness'' ''locals'')))"
  by (simp add: create_physical_event_campaign_def create_email_only_campaign_def)

text \<open>
  \<^bold>\<open>C2\<close>, amended. In the template dispatcher the event-planning template has exactly
  five entries and is what the event-planning parent carries, and the email parent of a
  physical-event campaign carries the very template of a standalone email-only
  campaign: for the same campaign name the two email parents are equal. The adapter's
  hard-coded tickets are other lists: seven event tasks and five email tasks for a
  physical event, six email tasks for an email-only campaign.
\<close>

theorem template_dispatcher_email_template_shared:
  "length get_event_planning_workflow_template = 5
   \<and> map_option parent_tasks (event_planning_parent
        (create_dual_parent_ticket_workflow nm goal target uid)) =
       Some get_event_planning_workflow_template
   \<and> map_option parent_tasks (email_campaign_parent
        (create_dual_parent_ticket_workflow nm goal target uid)) =
       Some get_email_campaign_workflow_template
   \<and> map_option parent_tasks (email_campaign_parent
        (create_email_only_workflow nm' goal' target' uid')) =
       Some get_email_campaign_workflow_template
   \<and> email_campaign_parent (create_dual_parent_ticket_workflow nm goal target uid) =
       email_campaign_parent (create_email_only_workflow nm goal' target' uid')
   \<and> map_option (length \<circ> ticket_tasks)
        (event_ticket (create_physical_event_campaign hsh nm goal target)) = Some 7
   \<and> map_option (length \<circ> ticket_tasks)
        (email_ticket (create_physical_event_campaign hsh nm goal target)) = Some 5
   \<and> map_option (length \<circ> ticket_tasks)
        (email_ticket (create_email_only_campaign hsh nm' goal' target')) = Some 6"
  by (simp add: workflow_defs create_physical_event_campaign_def
      create_email_only_campaign_def Let_def get_event_planning_workflow_template_def)

text \<open>
  \<^bold>\<open>C3.\<close> The email-only template has exactly six entries, in the order given here, and
  each entry names its assignee, \<open>Jheryl\<close>. The adapter's email-only ticket likewise
  lists six tasks in a fixed order, under the one assignee of the ticket.
\<close>

theorem email_template_six_entries:
  "map name get_email_campaign_workflow_template =
     [''Email Template Build'', ''Email Content Creation & Copy'',
      ''Email Invitation Scheduling'', ''Attendee Communication Setup'',
      ''RSVP Management System'', ''Email Campaign QA & Send'']
   \<and> length get_email_campaign_workflow_template = 6
   \<and> (\<forall>t \<in> set get_email_campaign_workflow_template. assignee t = ''Jheryl'' \<and> assignee t \<noteq> [])
   \<and> map_option ticket_tasks (email_ticket (create_email_only_campaign hsh nm goal target)) =
       Some [''Campaign strategy'', ''Audience segmentation'', ''Content creation'',
             ''A/B testing'', ''Send automation'', ''Performance analysis'']
   \<and> map_option ticket_assignees (email_ticket (create_email_only_campaign hsh nm goal target)) =
       Some [''jheryl@fetchrewards.com'']"
  by (simp add: get_email_campaign_workflow_template_def create_email_only_campaign_def)

theorem email_template_six_entries_witness:
  "get_email_campaign_workflow_template ! 5 \<in> set get_email_campaign_workflow_template
   \<and> assignee (get_email_campaign_workflow_template ! 5) = ''Jheryl''"
proof -
  have mem: "get_email_campaign_workflow_template ! 5 \<in> set get_email_campaign_workflow_template"
    by (simp add: get_email_campaign_workflow_template_def)
  from email_template_six_entries [of sample_hash "''Fall Sale''" "''boost signups''" "''new users''"]
  have "\<forall>t \<in> set get_email_campaign_workflow_template. assignee t = ''Jheryl'' \<and> assignee t \<noteq> []"
    by blast
  with mem show ?thesis by blast
qed

section \<open>Subtasks of the unified workflow\<close>

lemma event_date_of_eq: "event_date_of now event_dates = now + timedelta_days 30"
  by (simp add: event_date_of_def)

lemma standard_subtasks_length: "length (standard_subtasks d) = 3"
  by (simp add: standard_subtasks_def)

lemma custom_names:
  "map subtask_name (map (make_subtask hsh fmt ptid)
       (enumerate n (map (custom_subtask d) items))) = map ((@) ''Custom: '') items"
  by (induction items arbitrary: n) (simp_all add: make_subtask_def custom_subtask_def)

lemma all_subtasks_length:
  "length (create_campaign_subtasks hsh fmt now ptid deliverables event_dates) =
     3 + length (deliverable_items deliverables)"
  by (simp add: create_campaign_subtasks_def standard_subtasks_def Let_def)

lemma subtask_nth:
  assumes "i < 3 + length (deliverable_items deliverables)"
  shows "create_campaign_subtasks hsh fmt now ptid deliverables event_dates ! i =
           make_subtask hsh fmt ptid
             (i, (standard_subtasks (now + timedelta_days 30) @
                  map (custom_subtask (now + timedelta_days 30)) (deliverable_items deliverables)) ! i)"
  using assms
  by (simp add: create_campaign_subtasks_def Let_def event_date_of_eq nth_enumerate_eq
      standard_subtasks_length)

lemma custom_nth:
  assumes "3 \<le> i" "i < 3 + length (deliverable_items deliverables)"
  shows "(standard_subtasks d @ map (custom_subtask d) (deliverable_items deliverables)) ! i =
           custom_subtask d (deliverable_items deliverables ! (i - 3))"
  using assms by (simp add: nth_append standard_subtasks_length)

lemma subtasks_split:
  "create_campaign_subtasks hsh fmt now ptid deliverables event_dates =
     map (make_subtask hsh fmt ptid)
       (enumerate 0 (standard_subtasks (now + timedelta_days 30))) @
     map (make_subtask hsh fmt ptid)
       (enumerate 3 (map (custom_subtask (now + timedelta_days 30))
          (deliverable_items deliverables)))"
  by (simp add: create_campaign_subtasks_def Let_def event_date_of_eq
      enumerate_append_eq standard_subtasks_length)

lemma standard_names:
  "map subtask_name (map (make_subtask hsh fmt ptid) (enumerate 0 (standard_subtasks d))) =
     [''Deliverable Design'', ''Creative Review'', ''EDEN Review'']"
  by (simp add: standard_subtasks_def make_subtask_def)

lemma subtask_names:
  "map subtask_name (create_campaign_subtasks hsh fmt now ptid deliverables event_dates) =
     [''Deliverable Design'', ''Creative Review'', ''EDEN Review''] @
     map ((@) ''Custom: '') (deliverable_items deliverables)"
  by (simp only: subtasks_split map_append custom_names standard_names)

lemma sample_items:
  "deliverable_items sample_deliverables = [''Banner ad'', ''Landing page'']"
  by code_simp

text \<open>
  \<^bold>\<open>C4.\<close> With the reference date \<open>D\<close>, which is the clock reading plus 30 days, the
  first three subtasks are deliverable design, creative review and the approval review
  (\<open>EDEN Review\<close>), due at \<open>D\<close> minus 14, 12 and 10 days; every subtask after them
  comes from a deliverable line, is due at \<open>D\<close> minus 7 days and depends on the approval
  review alone.
\<close>

theorem unified_due_dates:
  fixes hsh fmt now ptid deliverables event_dates
  defines "D \<equiv> now + timedelta_days 30"
  defines "subs \<equiv> create_campaign_subtasks hsh fmt now ptid deliverables event_dates"
  shows "map subtask_name (take 3 subs) = [''Deliverable Design'', ''Creative Review'', ''EDEN Review'']
     \<and> map due_date (take 3 subs) =
         [fmt (D - timedelta_days 14), fmt (D - timedelta_days 12), fmt (D - timedelta_days 10)]
     \<and> (\<forall>i. 3 \<le> i \<and> i < length subs \<longrightarrow>
           due_date (subs ! i) = fmt (D - timedelta_days 7)
           \<and> subtask_dependencies (subs ! i) = [''EDEN Review''])
     \<and> map subtask_name (drop 3 subs) = map ((@) ''Custom: '') (deliverable_items deliverables)"
proof -
  have first: "take 3 subs = map (make_subtask hsh fmt ptid) (enumerate 0 (standard_subtasks D))"
    by (simp add: subs_def D_def subtasks_split standard_subtasks_length)
  have rest: "drop 3 subs =
      map (make_subtask hsh fmt ptid)
        (enumerate 3 (map (custom_subtask D) (deliverable_items deliverables)))"
    by (simp add: subs_def D_def subtasks_split standard_subtasks_length)
  have a: "map subtask_name (take 3 subs) = [''Deliverable Design'', ''Creative Review'', ''EDEN Review'']"
    unfolding first by (rule standard_names)
  have b: "map due_date (take 3 subs) =
         [fmt (D - timedelta_days 14), fmt (D - timedelta_days 12), fmt (D - timedelta_days 10)]"
    by (simp add: first standard_subtasks_def make_subtask_def)
  have c: "due_date (subs ! i) = fmt (D - timedelta_days 7)
           \<and> subtask_dependencies (subs ! i) = [''EDEN Review'']"
    if "3 \<le> i" "i < length subs" for i
  proof -
    from that have lt: "i < 3 + length (deliverable_items deliverables)"
      by (simp add: subs_def all_subtasks_length)
    show ?thesis
      unfolding subs_def D_def
      by (simp add: subtask_nth [OF lt] custom_nth [OF that(1) lt] make_subtask_def
          custom_subtask_def)
  qed
  have d: "map subtask_name (drop 3 subs) = map ((@) ''Custom: '') (deliverable_items deliverables)"
    unfolding rest by (rule custom_names)
  from a b c d show ?thesis by blast
qed

theorem unified_due_dates_witness:
  "(3::nat) \<le> 4
   \<and> 4 < length (create_campaign_subtasks sample_hash sample_isoformat 0 ''task_11''
             sample_deliverables ''2025-10-01'')
   \<and> due_date (create_campaign_subtasks sample_hash sample_isoformat 0 ''task_11''
             sample_deliverables ''2025-10-01'' ! 4) =
       sample_isoformat (0 + timedelta_days 30 - timedelta_days 7)
   \<and> subtask_dependencies (create_campaign_subtasks sample_hash sample_isoformat 0 ''task_11''
             sample_deliverables ''2025-10-01'' ! 4) = [''EDEN Review'']"
proof -
  have len: "4 < length (create_campaign_subtasks sample_hash sample_isoformat 0 ''task_11''
             sample_deliverables ''2025-10-01'')"
    by (simp add: all_subtasks_length sample_items)
  with unified_due_dates [of sample_hash sample_isoformat 0 "''task_11''"
         sample_deliverables "''2025-10-01''"]
  show ?thesis by simp
qed

text \<open>
  \<^bold>\<open>C5\<close>, as stated, fails: the two deliverable lines do give two ad hoc subtasks, but
  with the three standard ones the parent has five subtasks, not four.
\<close>

theorem two_deliverables_not_four_subtasks:
  "\<not> (length (deliverable_items sample_deliverables) = 2
        \<and> map_option (length \<circ> subtasks)
             (create_unified_campaign_workflow sample_hash sample_isoformat 0 0 0
                sample_campaign_data) = Some 4)"
  by (simp add: create_unified_campaign_workflow_def Let_def all_subtasks_length
      sample_campaign_data_def get_default_def sample_items)

text \<open>
  \<^bold>\<open>C5\<close>, amended. A unified-workflow submission whose deliverables are the two lines
  \<open>Banner ad\<close> and \<open>Landing page\<close> returns a workflow with exactly two ad hoc subtasks,
  one per line, after the three standard ones: five subtasks under the parent, and a
  \<open>total_tasks\<close> of six with the parent counted.
\<close>

theorem two_deliverables_five_subtasks:
  assumes "campaign_data ''deliverables'' = Some sample_deliverables"
  shows "\<exists>w. create_unified_campaign_workflow hsh fmt now1 now2 now3 campaign_data = Some w
     \<and> map subtask_name (subtasks w) =
         [''Deliverable Design'', ''Creative Review'', ''EDEN Review'',
          ''Custom: Banner ad'', ''Custom: Landing page'']
     \<and> length (subtasks w) = 5
     \<and> workflow_total_tasks w = 6"
  using assms
  by (simp add: create_unified_campaign_workflow_def Let_def get_default_def
      subtask_names all_subtasks_length sample_items)

theorem two_deliverables_five_subtasks_witness:
  "sample_campaign_data ''deliverables'' = Some sample_deliverables
   \<and> map_option (length \<circ> subtasks)
        (create_unified_campaign_workflow sample_hash sample_isoformat 0 0 0
           sample_campaign_data) = Some 5"
proof -
  have d: "sample_campaign_data ''deliverables'' = Some sample_deliverables"
    by (simp add: sample_campaign_data_def)
  from two_deliverables_five_subtasks [of sample_campaign_data sample_hash sample_isoformat 0 0 0] d
  show ?thesis by auto
qed

text \<open>
  \<^bold>\<open>C10.\<close> Two calls of the subtask builder that differ only in \<open>event_dates\<close>, at the
  same clock reading, return the same subtasks and so the same due dates: the reference
  date is the clock reading plus 30 days whatever the string holds, and the string
  occurs nowhere else in the builder.
\<close>

theorem due_dates_ignore_event_dates:
  "create_campaign_subtasks hsh fmt now ptid deliverables event_dates1 =
     create_campaign_subtasks hsh fmt now ptid deliverables event_dates2
   \<and> map due_date (create_campaign_subtasks hsh fmt now ptid deliverables event_dates1) =
     map due_date (create_campaign_subtasks hsh fmt now ptid deliverables event_dates2)
   \<and> event_date_of now event_dates1 = now + timedelta_days 30"
  by (simp add: create_campaign_subtasks_def event_date_of_eq)

section \<open>Fallback suggestions\<close>

lemma length_concat_replicate: "length (concat (replicate k xs)) = k * length xs"
  by (induction k) simp_all

lemma nth_concat_replicate:
  "i < k * length xs \<Longrightarrow> concat (replicate k xs) ! i = xs ! (i mod length xs)"
proof (induction k arbitrary: i)
  case 0
  then show ?case by simp
next
  case (Suc k)
  show ?case
  proof (cases "i < length xs")
    case True
    then show ?thesis by (simp add: nth_append)
  next
    case False
    with Suc.prems have "i - length xs < k * length xs" by simp
    from Suc.IH [OF this] False show ?thesis
      by (simp add: nth_append le_mod_geq)
  qed
qed

lemma cycle_covers:
  assumes "0 \<le> c" "xs \<noteq> []"
  shows "nat c < nat (c div int (length xs) + 1) * length xs"
proof -
  let ?n = "int (length xs)"
  from assms have n: "0 < ?n" by simp
  have "c div ?n * ?n + c mod ?n = c" by (rule div_mult_mod_eq)
  moreover from n have "c mod ?n < ?n" by simp
  ultimately have "c < c div ?n * ?n + ?n" by linarith
  then have "c < (c div ?n + 1) * ?n" by (simp add: algebra_simps)
  moreover from assms n have "0 \<le> c div ?n + 1" by (simp add: pos_imp_zdiv_nonneg_iff)
  ultimately show ?thesis
    using assms by (simp add: nat_less_iff nat_mult_distrib)
qed

lemma cycling_slice:
  assumes "0 \<le> c" "xs \<noteq> []"
  shows "length (slice_to (list_times xs (c div int (length xs) + 1)) c) = nat c"
    and "i < nat c \<Longrightarrow>
           slice_to (list_times xs (c div int (length xs) + 1)) c ! i = xs ! (i mod length xs)"
proof -
  note cov = cycle_covers [OF assms]
  show "length (slice_to (list_times xs (c div int (length xs) + 1)) c) = nat c"
    using assms(1) cov by (simp add: slice_to_def list_times_def length_concat_replicate)
  show "slice_to (list_times xs (c div int (length xs) + 1)) c ! i = xs ! (i mod length xs)"
    if "i < nat c"
  proof -
    from that cov have "i < nat (c div int (length xs) + 1) * length xs" by simp
    with that assms(1) show ?thesis
      by (simp add: slice_to_def list_times_def nth_concat_replicate)
  qed
qed

lemma negative_count_empty:
  assumes "c < 0" "xs \<noteq> []"
  shows "slice_to (list_times xs (c div int (length xs) + 1)) c = []"
proof -
  from assms have "c div int (length xs) < 0" by (simp add: div_neg_pos_less0)
  then have "nat (c div int (length xs) + 1) = 0" by simp
  then show ?thesis by (simp add: slice_to_def list_times_def)
qed

lemma ai_fallback_list_length: "length (ai_fallback_list ctype) = 5"
  by (simp add: ai_fallback_list_def ai_fallbacks_def)

lemma handler_fallback_list_length: "length (handler_fallback_list stype) = 3"
  by (simp add: handler_fallback_list_def handler_fallbacks_def)


lemma ai_fallback_list_recognized:
  "map_of ai_fallbacks ctype = Some l \<Longrightarrow> ai_fallback_list ctype = l"
  by (simp add: ai_fallback_list_def)

lemma handler_fallback_list_recognized:
  "map_of handler_fallbacks stype = Some l \<Longrightarrow> handler_fallback_list stype = l"
  by (simp add: handler_fallback_list_def)

text \<open>
  \<^bold>\<open>C6.\<close> Without a configured client, suggestion generation for a count that is not
  negative returns exactly that many items, and item \<open>i\<close> is entry \<open>i\<close> modulo the
  length of the fallback list: the list is cycled when the count exceeds its length. The
  list is the tag's own entry of the fixed table whenever the tag is in the table. The
  same holds of the handler module's \<open>get_fallback_suggestions\<close> and its table.
\<close>

theorem fallback_suggestions_cycle:
  assumes "0 \<le> count"
  shows "length (generate_campaign_suggestions None ctype count) = nat count
     \<and> (\<forall>i < nat count. generate_campaign_suggestions None ctype count ! i =
            ai_fallback_list ctype ! (i mod length (ai_fallback_list ctype)))
     \<and> (\<forall>l. map_of ai_fallbacks ctype = Some l \<longrightarrow> ai_fallback_list ctype = l)
     \<and> length (get_fallback_suggestions stype count) = nat count
     \<and> (\<forall>i < nat count. get_fallback_suggestions stype count ! i =
            handler_fallback_list stype ! (i mod length (handler_fallback_list stype)))
     \<and> (\<forall>l. map_of handler_fallbacks stype = Some l \<longrightarrow> handler_fallback_list stype = l)"
proof -
  have ai: "ai_fallback_list ctype \<noteq> []"
    using ai_fallback_list_length [of ctype] by auto
  have hd: "handler_fallback_list stype \<noteq> []"
    using handler_fallback_list_length [of stype] by auto
  have unconfigured: "generate_campaign_suggestions None ctype count =
      slice_to (list_times (ai_fallback_list ctype)
        (count div int (length (ai_fallback_list ctype)) + 1)) count"
    by (simp add: generate_campaign_suggestions_def ai_get_fallback_suggestions_def Let_def)
  have handler: "get_fallback_suggestions stype count =
      slice_to (list_times (handler_fallback_list stype)
        (count div int (length (handler_fallback_list stype)) + 1)) count"
    by (simp add: get_fallback_suggestions_def Let_def)
  show ?thesis
    unfolding unconfigured handler
    using cycling_slice [OF assms ai] cycling_slice [OF assms hd]
      ai_fallback_list_recognized [of ctype] handler_fallback_list_recognized [of stype]
    by blast
qed

theorem fallback_suggestions_cycle_witness:
  "(0::int) \<le> 7
   \<and> map_of ai_fallbacks ''social'' =
       Some [''#ScanToWin Challenge'', ''Receipt Art Contest'', ''Fetch Friends Referral Drive'',
             ''Store Partnership Announcements'', ''User Success Story Features'']
   \<and> length (generate_campaign_suggestions None ''social'' 7) = 7
   \<and> generate_campaign_suggestions None ''social'' 7 ! 6 = ''Receipt Art Contest''
   \<and> length (get_fallback_suggestions ''slides'' 7) = 7"
proof -
  have m: "map_of ai_fallbacks ''social'' =
       Some [''#ScanToWin Challenge'', ''Receipt Art Contest'', ''Fetch Friends Referral Drive'',
             ''Store Partnership Announcements'', ''User Success Story Features'']"
    by (simp add: ai_fallbacks_def)
  have l: "ai_fallback_list ''social'' =
       [''#ScanToWin Challenge'', ''Receipt Art Contest'', ''Fetch Friends Referral Drive'',
        ''Store Partnership Announcements'', ''User Success Story Features'']"
    by (rule ai_fallback_list_recognized [OF m])
  have "(0::int) \<le> 7" by simp
  from fallback_suggestions_cycle [OF this, of "''social''" "''slides''"]
  have "length (generate_campaign_suggestions None ''social'' 7) = 7"
    and "generate_campaign_suggestions None ''social'' 7 ! 6 =
           ai_fallback_list ''social'' ! (6 mod length (ai_fallback_list ''social''))"
    and "length (get_fallback_suggestions ''slides'' 7) = 7"
    by simp_all
  with m show ?thesis by (simp add: l)
qed

section \<open>Modal navigation falls back to an update\<close>

text \<open>
  \<^bold>\<open>C7\<close>, as stated, fails: for a body with a view identifier and no trigger identifier
  a push request does call \<open>views_update\<close> on that view, but when the client raises on
  that call (and on the retry of the last resort) the navigation raises.
\<close>

theorem push_fallback_raises_when_update_fails:
  "view_id push_body = Some ''V1'' \<and> body_trigger_id push_body = None
   \<and> handle_modal_navigation failing_client push_body ''modal'' ''push'' [] =
       (Inl (OtherError ''All modal navigation methods failed: not_found''),
        [Views_update ''V1'' ''modal'', Views_update ''V1'' ''modal''])"
  by (simp add: handle_modal_navigation_def navigate_def resolve_auto_def last_resort_def
      view_id_def trigger_def push_body_def failing_client_def Let_def)

text \<open>
  \<^bold>\<open>C7\<close>, amended. For a body with a view identifier and no (or an empty) trigger
  identifier, a push request calls \<open>views_update\<close> on that view identifier and makes no
  other kind of call. It returns what that call returns; it raises only when the call
  raises: a \<open>ValueError\<close> is raised on as it is, after any other exception the same
  \<open>views_update\<close> is tried once more and its response returned, and only when that fails
  too is \<open>All modal navigation methods failed\<close> raised.
\<close>

theorem push_without_trigger_resolves_to_update:
  assumes "view_id body = Some v" and "trigger body = None"
  shows "handle_modal_navigation cl body modal ''push'' s =
     (case cl (Views_update v modal) s of
        (Inr r, s1) \<Rightarrow> (Inr r, s1)
      | (Inl (ValueError m), s1) \<Rightarrow> (Inl (ValueError m), s1)
      | (Inl (OtherError m), s1) \<Rightarrow>
          (case cl (Views_update v modal) s1 of
             (Inr r, s2) \<Rightarrow> (Inr r, s2)
           | (Inl e, s2) \<Rightarrow>
               (Inl (OtherError (''All modal navigation methods failed: '' @ m)), s2)))"
  using assms
  by (simp add: handle_modal_navigation_def navigate_def resolve_auto_def last_resort_def
      Let_def split: prod.splits sum.splits exn.splits)

theorem push_without_trigger_resolves_to_update_witness:
  "view_id push_body = Some ''V1'' \<and> trigger push_body = None
   \<and> handle_modal_navigation recording_client push_body ''modal'' ''push'' [] =
       (Inr ''ok'', [Views_update ''V1'' ''modal''])"
proof -
  have v: "view_id push_body = Some ''V1''" and t: "trigger push_body = None"
    by (simp_all add: view_id_def trigger_def push_body_def)
  from push_without_trigger_resolves_to_update [OF v t, of recording_client "''modal''" "[]"] v t
  show ?thesis by (simp add: recording_client_def)
qed

section \<open>Refreshes of the suggestion cache are throttled\<close>

lemma call_cases:
  obtains
    (refresh) x xs age where
      "suggestion_cache st ty = Some (CList (x # xs))"
      "cache_age_of (suggestion_cache st) = CTime age" "now - age > 300"
      "generate_ai_suggestions ty count now st =
         (slice_to (x # xs) count,
          st\<lparr>pending_tasks := pending_tasks st @ [Refresh_ai_cache ty count],
             suggestion_cache := (suggestion_cache st)(''last_refresh'' \<mapsto> CTime now)\<rparr>)"
  | (cached) x xs age where
      "suggestion_cache st ty = Some (CList (x # xs))"
      "cache_age_of (suggestion_cache st) = CTime age" "\<not> now - age > 300"
      "generate_ai_suggestions ty count now st = (slice_to (x # xs) count, st)"
  | (failed)
      "generate_ai_suggestions ty count now st = (get_fallback_suggestions ty count, st)"
  | (populate)
      "generate_ai_suggestions ty count now st =
         (get_fallback_suggestions ty count,
          st\<lparr>pending_tasks := pending_tasks st @ [Populate_cache_background ty count]\<rparr>)"
proof (cases "suggestion_cache st ty")
  case None
  then show thesis
    by (intro populate) (simp add: generate_ai_suggestions_def spawn_def)
next
  case (Some v)
  show thesis
  proof (cases v)
    case CNone
    with Some show thesis
      by (intro populate) (simp add: generate_ai_suggestions_def spawn_def)
  next
    case (CTime t)
    with Some show thesis
      by (cases "t = 0")
         (simp_all add: populate failed generate_ai_suggestions_def spawn_def)
  next
    case (CList l)
    show thesis
    proof (cases l)
      case Nil
      with Some CList show thesis
        by (intro populate) (simp add: generate_ai_suggestions_def spawn_def)
    next
      case (Cons x xs)
      note entry = Some [unfolded CList Cons]
      show thesis
      proof (cases "cache_age_of (suggestion_cache st)")
        case CNone
        with entry show thesis
          by (intro failed) (simp add: generate_ai_suggestions_def Let_def)
      next
        case (CList l')
        with entry show thesis
          by (intro failed) (simp add: generate_ai_suggestions_def Let_def)
      next
        case (CTime age)
        show thesis
        proof (cases "now - age > 300")
          case True
          with entry CTime show thesis
            by (intro refresh [of x xs age])
               (simp_all add: generate_ai_suggestions_def Let_def spawn_def)
        next
          case False
          with entry CTime show thesis
            by (intro cached [of x xs age])
               (simp_all add: generate_ai_suggestions_def Let_def)
        qed
      qed
    qed
  qed
qed


lemma recorded_age_after_refresh:
  "recorded_age (st\<lparr>pending_tasks := ts,
      suggestion_cache := (suggestion_cache st)(''last_refresh'' \<mapsto> CTime now)\<rparr>) = Some now"
  by (simp add: recorded_age_def cache_age_of_def)

lemma call_effect:
  assumes "generate_ai_suggestions ty count now st = (res, st')"
  shows "pending_tasks st' = pending_tasks st @ spawned st st'
     \<and> length (spawned st st') \<le> 1
     \<and> (\<forall>k. k \<noteq> ''last_refresh'' \<longrightarrow> suggestion_cache st' k = suggestion_cache st k)
     \<and> (list_ex is_refresh (spawned st st') \<longrightarrow>
           spawned st st' = [Refresh_ai_cache ty count]
           \<and> (\<exists>age. recorded_age st = Some age \<and> now - age > 300)
           \<and> suggestion_cache st' ''last_refresh'' = Some (CTime now)
           \<and> recorded_age st' = Some now
           \<and> (\<exists>xs. suggestion_cache st ty = Some (CList xs) \<and> res = slice_to xs count))
     \<and> (\<not> list_ex is_refresh (spawned st st') \<longrightarrow>
           suggestion_cache st' = suggestion_cache st)"
proof (cases rule: call_cases [of st ty now count])
  case (refresh x xs age)
  with assms have st': "st' = st\<lparr>pending_tasks := pending_tasks st @ [Refresh_ai_cache ty count],
             suggestion_cache := (suggestion_cache st)(''last_refresh'' \<mapsto> CTime now)\<rparr>"
    and res: "res = slice_to (x # xs) count" by simp_all
  have sp: "spawned st st' = [Refresh_ai_cache ty count]"
    by (simp add: st' spawned_def)
  have age: "recorded_age st = Some age"
    by (simp add: recorded_age_def refresh(2))
  have age': "recorded_age st' = Some now"
    unfolding st' by (rule recorded_age_after_refresh)
  from sp age age' refresh(1,3) res show ?thesis
    by (simp add: st' is_refresh_def)
next
  case (cached x xs age)
  with assms have "st' = st" by simp
  then show ?thesis by (simp add: spawned_def)
next
  case failed
  with assms have "st' = st" by simp
  then show ?thesis by (simp add: spawned_def)
next
  case populate
  with assms have st': "st' = st\<lparr>pending_tasks := pending_tasks st @ [Populate_cache_background ty count]\<rparr>"
    by simp
  then show ?thesis by (simp add: spawned_def is_refresh_def)
qed

lemma run_task_age:
  assumes "age_at_least lo st" "lo \<le> t"
  shows "age_at_least lo (run_task client t st)"
proof (cases "pending_tasks st")
  case Nil
  with assms show ?thesis by (simp add: run_task_def)
next
  case (Cons task rest)
  have drop_pending: "age_at_least lo (st\<lparr>pending_tasks := rest\<rparr>)"
    using assms(1) by (simp add: age_at_least_def recorded_age_def)
  show ?thesis
  proof (cases task)
    case (Refresh_ai_cache ty n)
    show ?thesis
    proof (cases "ty = ''last_refresh''")
      case True
      then show ?thesis
        using drop_pending
        by (simp add: run_task_def Cons Refresh_ai_cache refresh_ai_cache_def Let_def
            age_at_least_def recorded_age_def cache_age_of_def)
    next
      case False
      then show ?thesis
        using drop_pending
        by (simp add: run_task_def Cons Refresh_ai_cache refresh_ai_cache_def Let_def
            age_at_least_def recorded_age_def cache_age_of_def)
    qed
  next
    case (Populate_cache_background ty n)
    then show ?thesis
      using drop_pending assms(2)
      by (simp add: run_task_def Cons populate_cache_background_def Let_def
          age_at_least_def recorded_age_def cache_age_of_def)
  qed
qed

lemma call_age:
  assumes "age_at_least lo st"
    and "\<not> list_ex is_refresh (spawned st (snd (generate_ai_suggestions ty n t st)))"
  shows "age_at_least lo (snd (generate_ai_suggestions ty n t st))"
proof -
  obtain res st' where c: "generate_ai_suggestions ty n t st = (res, st')"
    by (cases "generate_ai_suggestions ty n t st")
  from call_effect [OF c] assms(2) c have "suggestion_cache st' = suggestion_cache st"
    by simp
  with assms(1) c show ?thesis
    by (simp add: age_at_least_def recorded_age_def)
qed

lemma refresh_times_spaced:
  assumes "sorted (map event_time es)" "\<forall>e \<in> set es. lo \<le> event_time e" "age_at_least lo st"
  shows "(\<forall>u \<in> set (refresh_times es st). u > lo + 300)
     \<and> sorted_wrt (\<lambda>a b. b - a > 300) (refresh_times es st)"
  using assms
proof (induction es arbitrary: lo st)
  case Nil
  then show ?case by simp
next
  case (Cons e es)
  from Cons.prems have sorted_rest: "sorted (map event_time es)"
    and later: "\<forall>e' \<in> set es. event_time e \<le> event_time e'"
    and lo_e: "lo \<le> event_time e" and lo_rest: "\<forall>e' \<in> set es. lo \<le> event_time e'"
    by simp_all
  show ?case
  proof (cases e)
    case (Run client t)
    from run_task_age [OF Cons.prems(3), of t client] lo_e Run
    have "age_at_least lo (step e st)" by simp
    from Cons.IH [OF sorted_rest lo_rest this] Run show ?thesis by simp
  next
    case (Call ty n t)
    obtain res st' where c: "generate_ai_suggestions ty n t st = (res, st')"
      by (cases "generate_ai_suggestions ty n t st")
    show ?thesis
    proof (cases "list_ex is_refresh (spawned st st')")
      case False
      with call_age [OF Cons.prems(3), of ty n t] c
      have "age_at_least lo st'" by simp
      from Cons.IH [OF sorted_rest lo_rest this] False c Call show ?thesis by simp
    next
      case True
      with call_effect [OF c] obtain age where
        age: "recorded_age st = Some age" "t - age > 300" and age': "recorded_age st' = Some t"
        by blast
      from Cons.prems(3) age have "lo \<le> age" by (simp add: age_at_least_def)
      with age have t_lo: "t > lo + 300" by simp
      from age' have inv: "age_at_least t st'" by (simp add: age_at_least_def)
      from later Call have "\<forall>e' \<in> set es. t \<le> event_time e'" by simp
      from Cons.IH [OF sorted_rest this inv]
      have rest: "\<forall>u \<in> set (refresh_times es st'). u > t + 300"
        and spaced: "sorted_wrt (\<lambda>a b. b - a > 300) (refresh_times es st')" by simp_all
      from rest t_lo have "\<forall>u \<in> set (refresh_times es st'). u > lo + 300" by auto
      moreover from rest have "\<forall>u \<in> set (refresh_times es st'). u - t > 300" by auto
      ultimately show ?thesis
        using True c Call t_lo spaced by simp
    qed
  qed
qed

lemma initial_age: "age_at_least 0 initial_state"
  by (simp add: age_at_least_def recorded_age_def cache_age_of_def initial_state_def
      initial_cache_def)

text \<open>
  \<^bold>\<open>C8.\<close> A call of \<open>generate_ai_suggestions\<close> schedules at most one coroutine and
  leaves it pending; no suggestion list of the cache changes during the call, and the
  list returned is a slice of the cache as it was. The call schedules a refresh only
  when the clock reading exceeds the recorded timestamp by more than 300 seconds; it
  then sets the timestamp to the reading, and otherwise leaves the cache as it was.
  After a call that scheduled a refresh at reading \<open>now\<close>, in any further run at later
  readings every refresh is scheduled more than 300 seconds after \<open>now\<close> and any two of
  them are more than 300 seconds apart.
\<close>

theorem refresh_throttled:
  assumes "generate_ai_suggestions ty count now st = (res, st')"
  shows "pending_tasks st' = pending_tasks st @ spawned st st'
     \<and> length (spawned st st') \<le> 1
     \<and> (\<forall>k. k \<noteq> ''last_refresh'' \<longrightarrow> suggestion_cache st' k = suggestion_cache st k)
     \<and> (list_ex is_refresh (spawned st st') \<longrightarrow>
           spawned st st' = [Refresh_ai_cache ty count]
           \<and> (\<exists>age. recorded_age st = Some age \<and> now - age > 300)
           \<and> suggestion_cache st' ''last_refresh'' = Some (CTime now)
           \<and> (\<exists>xs. suggestion_cache st ty = Some (CList xs) \<and> res = slice_to xs count))
     \<and> (\<not> list_ex is_refresh (spawned st st') \<longrightarrow>
           suggestion_cache st' = suggestion_cache st)
     \<and> (\<forall>es. list_ex is_refresh (spawned st st') \<and> sorted (map event_time es) \<and>
               (\<forall>e \<in> set es. now \<le> event_time e) \<longrightarrow>
           (\<forall>u \<in> set (refresh_times es st'). u - now > 300)
           \<and> sorted_wrt (\<lambda>a b. b - a > 300) (refresh_times es st'))"
proof -
  note first = call_effect [OF assms]
  have later: "(\<forall>u \<in> set (refresh_times es st'). u - now > 300)
           \<and> sorted_wrt (\<lambda>a b. b - a > 300) (refresh_times es st')"
    if a: "list_ex is_refresh (spawned st st')" and b: "sorted (map event_time es)"
      and c: "\<forall>e \<in> set es. now \<le> event_time e" for es
  proof -
    from first a have "recorded_age st' = Some now" by blast
    then have "age_at_least now st'" by (simp add: age_at_least_def)
    from refresh_times_spaced [OF b c this] show ?thesis by auto
  qed
  from first later show ?thesis by blast
qed

lemma sample_call:
  "generate_ai_suggestions ''slides'' 2 1000 initial_state =
     ([''Fetch 101: Brand Overview for New Partners - Mission, reach, user behavior showcase'',
       ''2025 Consumer Trends Report (Powered by Fetch Data) - Proprietary spending insights''],
      initial_state\<lparr>pending_tasks := [Refresh_ai_cache ''slides'' 2],
         suggestion_cache := initial_cache(''last_refresh'' \<mapsto> CTime 1000)\<rparr>)"
  by (simp add: generate_ai_suggestions_def initial_state_def initial_cache_def
      cache_age_of_def slice_to_def spawn_def Let_def)

lemma sample_refresh_times: "refresh_times sample_events after_sample_call = [1400]"
  by (simp add: sample_events_def after_sample_call_def generate_ai_suggestions_def
      initial_state_def initial_cache_def cache_age_of_def slice_to_def spawn_def Let_def
      run_task_def refresh_ai_cache_def generate_campaign_suggestions_def
      ai_get_fallback_suggestions_def ai_fallback_list_def ai_fallbacks_def list_times_def
      spawned_def is_refresh_def)

theorem refresh_throttled_witness:
  "generate_ai_suggestions ''slides'' 2 1000 initial_state =
     ([''Fetch 101: Brand Overview for New Partners - Mission, reach, user behavior showcase'',
       ''2025 Consumer Trends Report (Powered by Fetch Data) - Proprietary spending insights''],
      after_sample_call)
   \<and> spawned initial_state after_sample_call = [Refresh_ai_cache ''slides'' 2]
   \<and> recorded_age initial_state = Some 0
   \<and> suggestion_cache after_sample_call ''last_refresh'' = Some (CTime 1000)
   \<and> sorted (map event_time sample_events)
   \<and> refresh_times sample_events after_sample_call = [1400]
   \<and> (1400::real) - 1000 > 300"
proof -
  note call = sample_call [folded after_sample_call_def]
  note facts = refresh_throttled [OF call]
  have sp: "spawned initial_state after_sample_call = [Refresh_ai_cache ''slides'' 2]"
    by (simp add: spawned_def after_sample_call_def initial_state_def)
  then have r: "list_ex is_refresh (spawned initial_state after_sample_call)"
    by (simp add: is_refresh_def)
  have times: "sorted (map event_time sample_events)"
      "\<forall>e \<in> set sample_events. 1000 \<le> event_time e"
    by (simp_all add: sample_events_def)
  from facts r have stamp: "suggestion_cache after_sample_call ''last_refresh'' = Some (CTime 1000)"
    by blast
  from facts r times have "\<forall>u \<in> set (refresh_times sample_events after_sample_call). u - 1000 > 300"
    by blast
  then have gap: "(1400::real) - 1000 > 300"
    by (simp add: sample_refresh_times)
  have age: "recorded_age initial_state = Some 0"
    by (simp add: recorded_age_def cache_age_of_def initial_state_def initial_cache_def)
  from call sp age stamp times(1) sample_refresh_times gap show ?thesis by blast
qed

section \<open>The top-level error handler\<close>

text \<open>
  \<^bold>\<open>C9.\<close> The handler returns normally for every error. It appends one line to the
  log, which names the user identifier of the body and the error text. When the
  lower-cased error text contains one of the three benign codes it makes no call to
  the chat client; otherwise it makes exactly one, posting the apology to the user
  identifier, and a failure of that call is swallowed.
\<close>

theorem error_handler_logs_and_apologises:
  "fst (global_error_handler chat error_msg body_user logger_arg w) = Inr ()
   \<and> error_log (snd (global_error_handler chat error_msg body_user logger_arg w)) =
       error_log w @
       [(if logger_arg then Supplied_logger else Module_logger,
         ''Unhandled error for user '' @ user_id_of body_user @ '': '' @ error_msg)]
   \<and> chat_calls (snd (global_error_handler chat error_msg body_user logger_arg w)) =
       (if list_ex (contains (lower error_msg))
             [''expired_trigger_id'', ''invalid_auth'', ''push_limit_reached'']
        then chat_calls w
        else chat_calls w @ [(user_id_of body_user, apology_text)])
   \<and> user_id_of (Some (Some u)) = u"
  by (simp add: global_error_handler_def Let_def is_benign_def benign_codes_def user_id_of_def
      split: sum.splits)

lemma benign_example: "is_benign ''The request failed: INVALID_AUTH''"
  by code_simp
lemma not_benign_example: "\<not> is_benign ''boom''"
  by code_simp

theorem error_handler_logs_and_apologises_witness:
  "chat_calls (snd (global_error_handler chat_delivers ''The request failed: INVALID_AUTH''
      (Some (Some ''U1'')) False empty_world)) = []
   \<and> chat_calls (snd (global_error_handler chat_fails ''boom''
      (Some (Some ''U1'')) False empty_world)) = [(''U1'', apology_text)]
   \<and> error_log (snd (global_error_handler chat_fails ''boom''
      (Some (Some ''U1'')) False empty_world)) =
       [(Module_logger, ''Unhandled error for user U1: boom'')]"
  using error_handler_logs_and_apologises [of chat_delivers "''The request failed: INVALID_AUTH''"
          "Some (Some ''U1'')" False empty_world "''U1''"]
        error_handler_logs_and_apologises [of chat_fails "''boom''"
          "Some (Some ''U1'')" False empty_world "''U1''"]
        benign_example not_benign_example
  by (simp add: empty_world_def is_benign_def benign_codes_def)

end
